theory Spec2Isabelle
  imports Complex_Main
begin

section \<open>Trading-card renderer of the mugshot bot (src/src/index.ts)\<close>

text \<open>
  The development embeds \<^verbatim>\<open>generateTradingCard\<close> (index.ts, lines 155-470) and the
  JavaScript built-ins it calls.

  \<^item> A JavaScript number is an IEEE-754 double. It is modelled as a \<^typ>\<open>real\<close>: every
    finite double is a real number, and \<^verbatim>\<open>toFixed\<close> and \<^verbatim>\<open>toLocaleString\<close> are specified
    by ECMAScript on the exact mathematical value of the number. The rounding of the
    arithmetic operations, and the values NaN and Infinity, are outside the model.
  \<^item> The canvas is modelled by the ordered list of drawing operations issued on its 2D
    context, each recorded with the context properties that determine its pixels.
  \<^item> The image directory is a function from paths to assets; an asset is missing, present but
    not decodable, or a picture. \<^verbatim>\<open>loadImage\<close> returns its rejection as a value.
  \<^item> The font engine (\<^verbatim>\<open>measureText\<close>) and the encoder (\<^verbatim>\<open>canvas.toBuffer\<close>) belong to
    the canvas library; they are parameters of the model.
\<close>

subsection \<open>Numbers to strings\<close>

definition digitChar :: "nat \<Rightarrow> char" where
  "digitChar d = ''0123456789'' ! d"

text \<open>The digits of the decimal representation of \<open>n\<close>, most significant first.\<close>

fun decimalDigits :: "nat \<Rightarrow> string" where
  "decimalDigits n =
     (if n < 10 then [digitChar n] else decimalDigits (n div 10) @ [digitChar (n mod 10)])"

declare decimalDigits.simps [simp del]

text \<open>
  \<^verbatim>\<open>Number::toString\<close> (ECMAScript 6.1.6.1.20) for a value \<open>x \<ge> 10^21\<close>, the only values
  \<^verbatim>\<open>toFixed\<close> hands to it: with \<open>n\<close> the number of integer digits, \<open>s\<close> the shortest digit
  string with \<open>s * 10^(n-k) = x\<close> and \<open>k\<close> its length, the result is \<open>s\<close> in exponential
  notation, \<^verbatim>\<open>d.ddde+(n-1)\<close>, without the point when \<open>k = 1\<close>. A double of that size is an
  integer; the model takes the digits of the exact value, where ECMAScript takes the
  shortest digits that read back as the same double.
\<close>

definition stripTrailingZeros :: "string \<Rightarrow> string" where
  "stripTrailingZeros ds = rev (dropWhile (\<lambda>c. c = CHR ''0'') (rev ds))"

definition numberToString :: "real \<Rightarrow> string" where
  "numberToString x =
     (let digits = decimalDigits (nat \<lfloor>x\<rfloor>);
          n = length digits;
          s = stripTrailingZeros digits;
          k = length s;
          e = n - 1
      in if k = 1 then s @ ''e+'' @ decimalDigits e
         else take 1 s @ ''.'' @ drop 1 s @ ''e+'' @ decimalDigits e)"

text \<open>
  \<^verbatim>\<open>Number.prototype.toFixed(fractionDigits)\<close> (ECMAScript 21.1.3.3), steps 7-12, for a
  finite number. The RangeError of step 5 is raised for \<open>fractionDigits\<close> outside 0..100;
  the program passes the literals 1, 2 and 3 only.
\<close>

definition toFixed :: "real \<Rightarrow> nat \<Rightarrow> string" where
  "toFixed x0 f =
     (let s = (if x0 < 0 then ''-'' else '''');
          x = (if x0 < 0 then - x0 else x0)
      in if 10 ^ 21 \<le> x then s @ numberToString x
         else
           (let n = nat \<lfloor>x * 10 ^ f + 1 / 2\<rfloor>;
                m = decimalDigits n
            in if f \<noteq> 0 then
                 (let k = length m;
                      m = (if k \<le> f then replicate (f + 1 - k) (CHR ''0'') @ m else m);
                      k = (if k \<le> f then f + 1 else k);
                      a = take (k - f) m;
                      b = drop (k - f) m
                  in s @ a @ ''.'' @ b)
               else s @ m))"

text \<open>
  \<^verbatim>\<open>toLocaleString('en-US', { minimumFractionDigits: 2, maximumFractionDigits: 2 })\<close>
  (ECMA-402, Intl.NumberFormat): the absolute value rounded to two fraction digits (the
  nearest, the larger of two), the integer digits in groups of three separated by commas,
  a decimal point, two fraction digits; a minus sign before a negative number.
\<close>

definition threeDigits :: "nat \<Rightarrow> string" where
  "threeDigits k = [digitChar (k div 100), digitChar (k div 10 mod 10), digitChar (k mod 10)]"

fun groupThousands :: "nat \<Rightarrow> string" where
  "groupThousands n =
     (if n < 1000 then decimalDigits n
      else groupThousands (n div 1000) @ '','' @ threeDigits (n mod 1000))"

declare groupThousands.simps [simp del]

definition toLocaleString :: "real \<Rightarrow> string" where
  "toLocaleString x0 =
     (let s = (if x0 < 0 then ''-'' else '''');
          x = \<bar>x0\<bar>;
          n = nat \<lfloor>x * 100 + 1 / 2\<rfloor>
      in s @ groupThousands (n div 100) @ ''.''
           @ [digitChar (n mod 100 div 10), digitChar (n mod 10)])"

subsection \<open>Image files\<close>

datatype chain = SOL | ETH

text \<open>
  What a path of the image directory holds: nothing, a file that does not decode, or a
  picture of a width and a height with its pixel data.
\<close>

datatype asset = Missing | Undecodable | Picture nat nat "nat list"

type_synonym files = "string \<Rightarrow> asset"

text \<open>The \<^verbatim>\<open>Image\<close> that \<^verbatim>\<open>loadImage\<close> resolves to; \<open>source\<close> is its \<^verbatim>\<open>src\<close>, the path it was loaded from.\<close>

record image =
  source :: string
  width :: nat
  height :: nat
  pixels :: "nat list"

datatype js_error = LoadError

definition existsSync :: "files \<Rightarrow> string \<Rightarrow> bool" where
  "existsSync fs p = (fs p \<noteq> Missing)"

definition loadImage :: "files \<Rightarrow> string \<Rightarrow> js_error + image" where
  "loadImage fs p =
     (case fs p of
        Picture w h px \<Rightarrow> Inr \<lparr>source = p, width = w, height = h, pixels = px\<rparr>
      | _ \<Rightarrow> Inl LoadError)"

text \<open>\<^verbatim>\<open>path.join(process.cwd(), 'src', 'images', name)\<close>, relative to the working directory.\<close>

definition imagePath :: "string \<Rightarrow> string" where
  "imagePath name = ''src/images/'' @ name"

text \<open>\<^verbatim>\<open>chain.toLowerCase()\<close> on the two values of the type \<^verbatim>\<open>'SOL' | 'ETH'\<close>.\<close>

fun toLowerCase :: "chain \<Rightarrow> string" where
  "toLowerCase SOL = ''sol''"
| "toLowerCase ETH = ''eth''"

subsection \<open>The 2D context\<close>

datatype draw_op =
    DrawImage image real real real real
  | FillRect real real real real string
  | StrokeRect real real real real string real
  | FillText string real real string string string string

text \<open>
  \<open>DrawImage img x y w h\<close>; \<open>FillRect x y w h fillStyle\<close>;
  \<open>StrokeRect x y w h strokeStyle lineWidth\<close>;
  \<open>FillText str x y fillStyle font textAlign textBaseline\<close>.
\<close>

record context2d =
  fillStyle :: string
  strokeStyle :: string
  lineWidth :: real
  font :: string
  textAlign :: string
  textBaseline :: string
  drawn :: "draw_op list"

record canvas =
  pixelWidth :: real
  pixelHeight :: real
  ctx2d :: context2d

text \<open>A new canvas: nothing drawn, the context properties at the Canvas API's defaults.\<close>

definition createCanvas :: "real \<Rightarrow> real \<Rightarrow> canvas" where
  "createCanvas w h =
     \<lparr>pixelWidth = w, pixelHeight = h,
      ctx2d = \<lparr>fillStyle = ''#000000'', strokeStyle = ''#000000'', lineWidth = 1,
               font = ''10px sans-serif'', textAlign = ''start'',
               textBaseline = ''alphabetic'', drawn = []\<rparr>\<rparr>"

definition drawImage :: "image \<Rightarrow> real \<Rightarrow> real \<Rightarrow> real \<Rightarrow> real \<Rightarrow> context2d \<Rightarrow> context2d" where
  "drawImage img x y w h c = c\<lparr>drawn := drawn c @ [DrawImage img x y w h]\<rparr>"

definition fillRect :: "real \<Rightarrow> real \<Rightarrow> real \<Rightarrow> real \<Rightarrow> context2d \<Rightarrow> context2d" where
  "fillRect x y w h c = c\<lparr>drawn := drawn c @ [FillRect x y w h (fillStyle c)]\<rparr>"

definition strokeRect :: "real \<Rightarrow> real \<Rightarrow> real \<Rightarrow> real \<Rightarrow> context2d \<Rightarrow> context2d" where
  "strokeRect x y w h c =
     c\<lparr>drawn := drawn c @ [StrokeRect x y w h (strokeStyle c) (lineWidth c)]\<rparr>"

definition fillText :: "string \<Rightarrow> real \<Rightarrow> real \<Rightarrow> context2d \<Rightarrow> context2d" where
  "fillText str x y c =
     c\<lparr>drawn := drawn c @ [FillText str x y (fillStyle c) (font c) (textAlign c) (textBaseline c)]\<rparr>"

text \<open>
  The font engine: the width of a string set in a font. \<^verbatim>\<open>ctx.measureText(s).width\<close> reads
  the context's current font.
\<close>

type_synonym text_metrics = "string \<Rightarrow> string \<Rightarrow> real"

definition measureText :: "text_metrics \<Rightarrow> context2d \<Rightarrow> string \<Rightarrow> real" where
  "measureText tm c str = tm (font c) str"

subsection \<open>Derived metrics (lines 168-177)\<close>

definition profit :: "real \<Rightarrow> real \<Rightarrow> real" where
  "profit initialInvestment finalAmount = finalAmount - initialInvestment"

definition profitPercentage :: "real \<Rightarrow> real \<Rightarrow> real" where
  "profitPercentage initialInvestment finalAmount =
     profit initialInvestment finalAmount / initialInvestment"

definition isProfitable :: "real \<Rightarrow> real \<Rightarrow> bool" where
  "isProfitable initialInvestment finalAmount = (profit initialInvestment finalAmount \<ge> 0)"

definition roi :: "real \<Rightarrow> real \<Rightarrow> real" where
  "roi initialInvestment finalAmount = finalAmount / initialInvestment"

definition initialUsd :: "real \<Rightarrow> real \<Rightarrow> real" where
  "initialUsd initialInvestment tokenPrice = initialInvestment * tokenPrice"

definition finalUsd :: "real \<Rightarrow> real \<Rightarrow> real" where
  "finalUsd finalAmount tokenPrice = finalAmount * tokenPrice"

definition profitUsd :: "real \<Rightarrow> real \<Rightarrow> real \<Rightarrow> real" where
  "profitUsd initialInvestment finalAmount tokenPrice =
     finalUsd finalAmount tokenPrice - initialUsd initialInvestment tokenPrice"

subsection \<open>The drawing script\<close>

text \<open>
  Each definition below is one commented block of \<^verbatim>\<open>generateTradingCard\<close>, in the order of
  the source; a \<^verbatim>\<open>try\<close> block is the case distinction on what \<^verbatim>\<open>loadImage\<close> returns, its
  \<^verbatim>\<open>catch\<close> block the \<open>Inl\<close> case, run on the context as the rejected call found it.
\<close>

text \<open>Lines 179-199: the background image, or a black rectangle.\<close>

definition drawBackground :: "files \<Rightarrow> real \<Rightarrow> real \<Rightarrow> context2d \<Rightarrow> context2d" where
  "drawBackground fs canvasWidth canvasHeight c =
     (let bgImagePath = imagePath ''bg.png''
      in if existsSync fs bgImagePath then
           (case loadImage fs bgImagePath of
              Inr bgImage \<Rightarrow> drawImage bgImage 0 0 canvasWidth canvasHeight c
            | Inl err \<Rightarrow>
                fillRect 0 0 canvasWidth canvasHeight (c\<lparr>fillStyle := ''#000000''\<rparr>))
         else fillRect 0 0 canvasWidth canvasHeight (c\<lparr>fillStyle := ''#000000''\<rparr>))"

text \<open>Lines 201-211: the framed MUGSHOT caption.\<close>

definition drawMugshotBox :: "context2d \<Rightarrow> context2d" where
  "drawMugshotBox c0 =
     (let c = c0\<lparr>strokeStyle := ''#FFFFFF''\<rparr>;
          c = c\<lparr>lineWidth := 5\<rparr>;
          c = strokeRect 1192 848 321 125 c;
          c = c\<lparr>fillStyle := ''#000000''\<rparr>;
          c = fillRect 1194 850 317 121 c;
          c = c\<lparr>fillStyle := ''#FFFFFF''\<rparr>;
          c = c\<lparr>font := ''bold 70px Impact''\<rparr>;
          c = c\<lparr>textAlign := ''center''\<rparr>
      in fillText ''MUGSHOT'' 1352 937 c)"

text \<open>Lines 213-218: the ticker headline.\<close>

definition drawTicker :: "string \<Rightarrow> context2d \<Rightarrow> context2d" where
  "drawTicker ticker c0 =
     (let c = c0\<lparr>fillStyle := ''#FFFFFF''\<rparr>;
          c = c\<lparr>font := ''bold 132px AntonSC''\<rparr>;
          c = c\<lparr>textAlign := ''left''\<rparr>;
          c = c\<lparr>textBaseline := ''top''\<rparr>
      in fillText (''$'' @ ticker) 112 63 c)"

text \<open>Lines 220-225: the PROFIT/LOSS header.\<close>

definition drawHeader :: "context2d \<Rightarrow> context2d" where
  "drawHeader c0 =
     (let c = c0\<lparr>fillStyle := ''#FFFFFF''\<rparr>;
          c = c\<lparr>font := ''36px GeistMono''\<rparr>;
          c = c\<lparr>textAlign := ''left''\<rparr>;
          c = c\<lparr>textBaseline := ''top''\<rparr>
      in fillText ''PROFIT/LOSS'' 125 299 c)"

text \<open>Lines 227-232: the profit amount in USD.\<close>

definition drawProfitUsd :: "real \<Rightarrow> real \<Rightarrow> real \<Rightarrow> context2d \<Rightarrow> context2d" where
  "drawProfitUsd initialInvestment finalAmount tokenPrice c0 =
     (let c = c0\<lparr>fillStyle :=
                   (if isProfitable initialInvestment finalAmount then ''#00FF00'' else ''#FF0000'')\<rparr>;
          c = c\<lparr>font := ''bold 152px Impact''\<rparr>;
          c = c\<lparr>textAlign := ''left''\<rparr>;
          c = c\<lparr>textBaseline := ''top''\<rparr>
      in fillText
           ((if isProfitable initialInvestment finalAmount then ''+$'' else ''-$'')
              @ toLocaleString \<bar>profitUsd initialInvestment finalAmount tokenPrice\<bar>)
           61 346 c)"

text \<open>Lines 234-267: the profit quantity and, to its right, the chain logo.\<close>

definition drawProfitQuantity ::
  "text_metrics \<Rightarrow> files \<Rightarrow> real \<Rightarrow> real \<Rightarrow> chain \<Rightarrow> context2d \<Rightarrow> context2d" where
  "drawProfitQuantity tm fs initialInvestment finalAmount chain c0 =
     (let c = c0\<lparr>fillStyle := ''#FFFFFF''\<rparr>;
          c = c\<lparr>font := ''bold 74px Impact''\<rparr>;
          c = c\<lparr>textAlign := ''left''\<rparr>;
          c = c\<lparr>textBaseline := ''middle''\<rparr>;
          percentageText = toFixed (profit initialInvestment finalAmount) 3;
          c = fillText percentageText 119 577 c;
          percentageTextWidth = measureText tm c percentageText;
          fontSize = 74;
          textHeight = fontSize * 0.75;
          tokenLogoX = 119 + percentageTextWidth + 20;
          tokenLogoY = 577 - (textHeight / 2);
          tokenLogoPath = imagePath (toLowerCase chain @ ''.png'')
      in if existsSync fs tokenLogoPath then
           (case loadImage fs tokenLogoPath of
              Inr tokenLogo \<Rightarrow>
                if chain = ETH then
                  (let ethLogoWidth = 39;
                       aspectRatio = real (height tokenLogo) / real (width tokenLogo);
                       ethLogoHeight = ethLogoWidth * aspectRatio
                   in drawImage tokenLogo tokenLogoX tokenLogoY ethLogoWidth ethLogoHeight c)
                else drawImage tokenLogo tokenLogoX tokenLogoY textHeight textHeight c
            | Inl err \<Rightarrow> c)
         else c)"

text \<open>Lines 269-284: the investment box and the bar below it.\<close>

definition drawInvestmentBox :: "context2d \<Rightarrow> context2d" where
  "drawInvestmentBox c0 =
     (let c = c0\<lparr>strokeStyle := ''#818181''\<rparr>;
          c = c\<lparr>lineWidth := 5\<rparr>;
          c = strokeRect 70 736 671 261 c;
          c = c\<lparr>fillStyle := ''#202020''\<rparr>;
          c = fillRect 73 738 665 257 c;
          c = c\<lparr>strokeStyle := ''#919191''\<rparr>;
          c = c\<lparr>lineWidth := 5\<rparr>;
          c = strokeRect 70 998 671 12 c;
          c = c\<lparr>fillStyle := ''#919191''\<rparr>
      in fillRect 70 998 671 12 c)"

text \<open>Lines 286-299: the INVESTED and SOLD labels.\<close>

definition drawLabels :: "text_metrics \<Rightarrow> real \<Rightarrow> real \<Rightarrow> context2d \<Rightarrow> context2d" where
  "drawLabels tm initialInvestment finalAmount c0 =
     (let c = c0\<lparr>fillStyle := ''#FFFFFF''\<rparr>;
          c = c\<lparr>font := ''28px GeistMono''\<rparr>;
          c = c\<lparr>textAlign := ''left''\<rparr>;
          c = c\<lparr>textBaseline := ''top''\<rparr>;
          c = fillText ''INVESTED'' 130 780 c;
          soldText = ''SOLD '' @ toFixed (roi initialInvestment finalAmount) 2;
          c = fillText soldText 440 780 c;
          soldTextWidth = measureText tm c soldText;
          c = c\<lparr>font := ''bold 28px GeistMono''\<rparr>
      in fillText ''X ROI'' (440 + soldTextWidth) 780 c)"

text \<open>
  Lines 343-370: \<^verbatim>\<open>stroke.png\<close> was loaded. The separator image, the final amount and the
  second logo.
\<close>

definition drawSeparatorImage ::
  "text_metrics \<Rightarrow> image \<Rightarrow> image \<Rightarrow> real \<Rightarrow> real \<Rightarrow> chain \<Rightarrow> real \<Rightarrow> real \<Rightarrow> real
     \<Rightarrow> context2d \<Rightarrow> context2d" where
  "drawSeparatorImage tm strokeImage tokenLogo initialInvestment finalAmount chain
       tokenLogoX tokenLogoY textHeight c0 =
     (let availableSpace = 440 - (tokenLogoX + textHeight);
          strokeX = tokenLogoX + textHeight + (availableSpace / 2) - (22 / 2);
          strokeY = 850 + (textHeight / 2) - (35 / 2);
          c = drawImage strokeImage strokeX strokeY 22 35 c0;
          c = c\<lparr>fillStyle :=
                  (if isProfitable initialInvestment finalAmount then ''#00FF00'' else ''#FF0000'')\<rparr>;
          finalAmountText = toFixed finalAmount 1;
          c = fillText finalAmountText 440 835 c;
          finalAmountWidth = measureText tm c finalAmountText;
          finalTokenX = 440 + finalAmountWidth + 19
      in if chain = ETH then
           (let ethLogoWidth = 39;
                aspectRatio = real (height tokenLogo) / real (width tokenLogo);
                ethLogoHeight = ethLogoWidth * aspectRatio
            in drawImage tokenLogo finalTokenX tokenLogoY ethLogoWidth ethLogoHeight c)
         else drawImage tokenLogo finalTokenX tokenLogoY textHeight textHeight c)"

text \<open>Lines 371-397: \<^verbatim>\<open>stroke.png\<close> does not exist.\<close>

definition drawSeparatorMissing ::
  "text_metrics \<Rightarrow> image \<Rightarrow> real \<Rightarrow> real \<Rightarrow> chain \<Rightarrow> real \<Rightarrow> real \<Rightarrow> context2d \<Rightarrow> context2d" where
  "drawSeparatorMissing tm tokenLogo initialInvestment finalAmount chain tokenLogoY textHeight c0 =
     (let c = fillText ''>'' 352 835 c0;
          c = c\<lparr>fillStyle :=
                  (if isProfitable initialInvestment finalAmount then ''#00FF00'' else ''#FF0000'')\<rparr>;
          finalAmountText = toFixed finalAmount 1;
          c = fillText finalAmountText 440 835 c;
          finalAmountWidth = measureText tm c finalAmountText;
          finalTokenX = 440 + finalAmountWidth + 19
      in if chain = ETH then
           (let ethLogoWidth = 39;
                aspectRatio = real (height tokenLogo) / real (width tokenLogo);
                ethLogoHeight = ethLogoWidth * aspectRatio
            in drawImage tokenLogo finalTokenX tokenLogoY ethLogoWidth ethLogoHeight c)
         else drawImage tokenLogo finalTokenX tokenLogoY textHeight textHeight c)"

text \<open>Lines 398-424: the \<^verbatim>\<open>catch\<close> block of the separator's \<^verbatim>\<open>try\<close>.\<close>

definition drawSeparatorError ::
  "text_metrics \<Rightarrow> image \<Rightarrow> real \<Rightarrow> real \<Rightarrow> chain \<Rightarrow> real \<Rightarrow> real \<Rightarrow> context2d \<Rightarrow> context2d" where
  "drawSeparatorError tm tokenLogo initialInvestment finalAmount chain tokenLogoY textHeight c0 =
     (let c = fillText ''>'' 352 835 c0;
          c = c\<lparr>fillStyle :=
                  (if isProfitable initialInvestment finalAmount then ''#00FF00'' else ''#FF0000'')\<rparr>;
          finalAmountText = toFixed finalAmount 1;
          c = fillText finalAmountText 440 835 c;
          finalAmountWidth = measureText tm c finalAmountText;
          finalTokenX = 448 + finalAmountWidth + 19
      in if chain = ETH then
           (let ethLogoWidth = 39;
                aspectRatio = real (height tokenLogo) / real (width tokenLogo);
                ethLogoHeight = ethLogoWidth * aspectRatio
            in drawImage tokenLogo finalTokenX tokenLogoY ethLogoWidth ethLogoHeight c)
         else drawImage tokenLogo finalTokenX tokenLogoY textHeight textHeight c)"

text \<open>
  The placeholder drawn for a logo, U+2261 (identical to), as the bytes of its UTF-8
  encoding.
\<close>

definition identicalTo :: string where
  "identicalTo = [CHR 0xE2, CHR 0x89, CHR 0xA1]"

text \<open>Lines 425-439: the chain's logo file does not exist.\<close>

definition drawLogoMissing :: "real \<Rightarrow> real \<Rightarrow> context2d \<Rightarrow> context2d" where
  "drawLogoMissing initialInvestment finalAmount c0 =
     (let c = fillText identicalTo 272 835 c0;
          c = fillText ''>'' 352 835 c;
          c = c\<lparr>fillStyle :=
                  (if isProfitable initialInvestment finalAmount then ''#00FF00'' else ''#FF0000'')\<rparr>;
          finalAmountText = toFixed finalAmount 1;
          c = fillText finalAmountText 440 835 c
      in fillText identicalTo 544 835 c)"

text \<open>Lines 440-454: the \<^verbatim>\<open>catch\<close> block of the logo's \<^verbatim>\<open>try\<close>.\<close>

definition drawLogoError :: "real \<Rightarrow> real \<Rightarrow> context2d \<Rightarrow> context2d" where
  "drawLogoError initialInvestment finalAmount c0 =
     (let c = fillText identicalTo 272 835 c0;
          c = fillText ''>'' 352 835 c;
          c = c\<lparr>fillStyle :=
                  (if isProfitable initialInvestment finalAmount then ''#00FF00'' else ''#FF0000'')\<rparr>;
          finalAmountText = toFixed finalAmount 1;
          c = fillText finalAmountText 440 835 c
      in fillText identicalTo 544 835 c)"

text \<open>
  Lines 301-454: the invested amount with its logo, the separator, the final amount with
  its logo. The separator's \<^verbatim>\<open>try\<close> is nested in the logo's.
\<close>

definition drawInvestment ::
  "text_metrics \<Rightarrow> files \<Rightarrow> real \<Rightarrow> real \<Rightarrow> chain \<Rightarrow> context2d \<Rightarrow> context2d" where
  "drawInvestment tm fs initialInvestment finalAmount chain c0 =
     (let c = c0\<lparr>font := ''bold 77px Impact''\<rparr>;
          c = c\<lparr>textAlign := ''left''\<rparr>;
          c = c\<lparr>textBaseline := ''top''\<rparr>;
          tokenLogoPath = imagePath (toLowerCase chain @ ''.png'')
      in if existsSync fs tokenLogoPath then
           (case loadImage fs tokenLogoPath of
              Inr tokenLogo \<Rightarrow>
                (let investmentText = toFixed initialInvestment 1;
                     c = fillText investmentText 130 835 c;
                     investmentTextWidth = measureText tm c investmentText;
                     fontSize = 77;
                     textHeight = fontSize * 0.75;
                     tokenLogoX = 130 + investmentTextWidth + 19;
                     tokenLogoY = 835 + (textHeight * 0.35);
                     c = (if chain = ETH then
                            (let ethLogoWidth = 39;
                                 aspectRatio = real (height tokenLogo) / real (width tokenLogo);
                                 ethLogoHeight = ethLogoWidth * aspectRatio
                             in drawImage tokenLogo tokenLogoX tokenLogoY ethLogoWidth ethLogoHeight c)
                          else drawImage tokenLogo tokenLogoX tokenLogoY textHeight textHeight c);
                     strokePath = imagePath ''stroke.png''
                 in if existsSync fs strokePath then
                      (case loadImage fs strokePath of
                         Inr strokeImage \<Rightarrow>
                           drawSeparatorImage tm strokeImage tokenLogo initialInvestment finalAmount
                             chain tokenLogoX tokenLogoY textHeight c
                       | Inl err \<Rightarrow>
                           drawSeparatorError tm tokenLogo initialInvestment finalAmount chain
                             tokenLogoY textHeight c)
                    else drawSeparatorMissing tm tokenLogo initialInvestment finalAmount chain
                           tokenLogoY textHeight c)
            | Inl err \<Rightarrow> drawLogoError initialInvestment finalAmount c)
         else drawLogoMissing initialInvestment finalAmount c)"

text \<open>Lines 456-466: the two amounts in USD.\<close>

definition drawUsdAmounts :: "real \<Rightarrow> real \<Rightarrow> real \<Rightarrow> context2d \<Rightarrow> context2d" where
  "drawUsdAmounts initialInvestment finalAmount tokenPrice c0 =
     (let c = c0\<lparr>font := ''bold 26px GeistMono''\<rparr>;
          c = c\<lparr>textAlign := ''left''\<rparr>;
          c = c\<lparr>textBaseline := ''top''\<rparr>;
          c = c\<lparr>fillStyle := ''#818181''\<rparr>;
          c = fillText (''$'' @ toLocaleString (initialUsd initialInvestment tokenPrice)) 130 927 c;
          c = c\<lparr>fillStyle := ''#818181''\<rparr>;
          c = c\<lparr>textAlign := ''left''\<rparr>;
          c = c\<lparr>textBaseline := ''top''\<rparr>
      in fillText (''$'' @ toLocaleString (finalUsd finalAmount tokenPrice)) 440 927 c)"

text \<open>
  Lines 162-467: the canvas as it stands when \<^verbatim>\<open>canvas.toBuffer()\<close> is called.
\<close>

definition renderCanvas ::
  "text_metrics \<Rightarrow> files \<Rightarrow> string \<Rightarrow> real \<Rightarrow> real \<Rightarrow> real \<Rightarrow> chain \<Rightarrow> canvas" where
  "renderCanvas tm fs ticker initialInvestment finalAmount tokenPrice chain =
     (let canvasWidth = 1600;
          canvasHeight = 1071;
          canvas = createCanvas canvasWidth canvasHeight;
          c = ctx2d canvas;
          c = drawBackground fs canvasWidth canvasHeight c;
          c = drawMugshotBox c;
          c = drawTicker ticker c;
          c = drawHeader c;
          c = drawProfitUsd initialInvestment finalAmount tokenPrice c;
          c = drawProfitQuantity tm fs initialInvestment finalAmount chain c;
          c = drawInvestmentBox c;
          c = drawLabels tm initialInvestment finalAmount c;
          c = drawInvestment tm fs initialInvestment finalAmount chain c;
          c = drawUsdAmounts initialInvestment finalAmount tokenPrice c
      in canvas\<lparr>ctx2d := c\<rparr>)"

text \<open>
  \<^verbatim>\<open>generateTradingCard\<close> (lines 155-470). \<open>toBuffer\<close> is the canvas library's encoder: the
  bytes of the image of the given size that the drawing operations produce.
\<close>

definition generateTradingCard ::
  "(canvas \<Rightarrow> 'buffer) \<Rightarrow> text_metrics \<Rightarrow> files \<Rightarrow> string \<Rightarrow> real \<Rightarrow> real \<Rightarrow> real \<Rightarrow> chain
     \<Rightarrow> 'buffer" where
  "generateTradingCard toBuffer tm fs ticker initialInvestment finalAmount tokenPrice chain =
     toBuffer (renderCanvas tm fs ticker initialInvestment finalAmount tokenPrice chain)"

subsection \<open>The script in normal form\<close>

text \<open>
  The operations that each block of the script appends to the drawing, written out as
  lists. The blocks that read no asset draw the same operations in every image directory;
  the three others are given by cases on what the paths hold. Lemma \<open>renderCanvas_normal_form\<close>
  proves that the script computes exactly these lists.
\<close>

definition backgroundOps :: "files \<Rightarrow> draw_op list" where
  "backgroundOps fs =
     (case fs (imagePath ''bg.png'') of
        Picture w h px \<Rightarrow>
          [DrawImage \<lparr>source = imagePath ''bg.png'', width = w, height = h, pixels = px\<rparr>
             0 0 1600 1071]
      | _ \<Rightarrow> [FillRect 0 0 1600 1071 ''#000000''])"

definition headOps :: "string \<Rightarrow> real \<Rightarrow> real \<Rightarrow> real \<Rightarrow> draw_op list" where
  "headOps ticker initialInvestment finalAmount tokenPrice =
     [StrokeRect 1192 848 321 125 ''#FFFFFF'' 5,
      FillRect 1194 850 317 121 ''#000000'',
      FillText ''MUGSHOT'' 1352 937 ''#FFFFFF'' ''bold 70px Impact'' ''center'' ''alphabetic'',
      FillText (''$'' @ ticker) 112 63 ''#FFFFFF'' ''bold 132px AntonSC'' ''left'' ''top'',
      FillText ''PROFIT/LOSS'' 125 299 ''#FFFFFF'' ''36px GeistMono'' ''left'' ''top'',
      FillText
        ((if isProfitable initialInvestment finalAmount then ''+$'' else ''-$'')
           @ toLocaleString \<bar>profitUsd initialInvestment finalAmount tokenPrice\<bar>)
        61 346
        (if isProfitable initialInvestment finalAmount then ''#00FF00'' else ''#FF0000'')
        ''bold 152px Impact'' ''left'' ''top'',
      FillText (toFixed (profit initialInvestment finalAmount) 3) 119 577
        ''#FFFFFF'' ''bold 74px Impact'' ''left'' ''middle'']"

definition quantityLogoOps ::
  "text_metrics \<Rightarrow> files \<Rightarrow> real \<Rightarrow> real \<Rightarrow> chain \<Rightarrow> draw_op list" where
  "quantityLogoOps tm fs initialInvestment finalAmount chain =
     (case fs (imagePath (toLowerCase chain @ ''.png'')) of
        Picture w h px \<Rightarrow>
          [DrawImage
             \<lparr>source = imagePath (toLowerCase chain @ ''.png''), width = w, height = h,
              pixels = px\<rparr>
             (119 + tm ''bold 74px Impact'' (toFixed (profit initialInvestment finalAmount) 3) + 20)
             (577 - 74 * 0.75 / 2)
             (if chain = ETH then 39 else 74 * 0.75)
             (if chain = ETH then 39 * (real h / real w) else 74 * 0.75)]
      | _ \<Rightarrow> [])"

definition boxOps :: "text_metrics \<Rightarrow> real \<Rightarrow> real \<Rightarrow> draw_op list" where
  "boxOps tm initialInvestment finalAmount =
     [StrokeRect 70 736 671 261 ''#818181'' 5,
      FillRect 73 738 665 257 ''#202020'',
      StrokeRect 70 998 671 12 ''#919191'' 5,
      FillRect 70 998 671 12 ''#919191'',
      FillText ''INVESTED'' 130 780 ''#FFFFFF'' ''28px GeistMono'' ''left'' ''top'',
      FillText (''SOLD '' @ toFixed (roi initialInvestment finalAmount) 2) 440 780
        ''#FFFFFF'' ''28px GeistMono'' ''left'' ''top'',
      FillText ''X ROI''
        (440 + tm ''28px GeistMono'' (''SOLD '' @ toFixed (roi initialInvestment finalAmount) 2))
        780 ''#FFFFFF'' ''bold 28px GeistMono'' ''left'' ''top'']"

definition finalAmountOp :: "real \<Rightarrow> real \<Rightarrow> draw_op" where
  "finalAmountOp initialInvestment finalAmount =
     FillText (toFixed finalAmount 1) 440 835
       (if isProfitable initialInvestment finalAmount then ''#00FF00'' else ''#FF0000'')
       ''bold 77px Impact'' ''left'' ''top''"

definition separatorOps ::
  "text_metrics \<Rightarrow> files \<Rightarrow> real \<Rightarrow> real \<Rightarrow> chain \<Rightarrow> image \<Rightarrow> draw_op list" where
  "separatorOps tm fs initialInvestment finalAmount chain tokenLogo =
     (let tokenLogoX = 130 + tm ''bold 77px Impact'' (toFixed initialInvestment 1) + 19;
          tokenLogoY = 835 + 77 * 0.75 * 0.35;
          finalAmountWidth = tm ''bold 77px Impact'' (toFixed finalAmount 1);
          logoWidth = (if chain = ETH then 39 else 77 * 0.75);
          logoHeight =
            (if chain = ETH then 39 * (real (height tokenLogo) / real (width tokenLogo))
             else 77 * 0.75)
      in case fs (imagePath ''stroke.png'') of
           Picture w h px \<Rightarrow>
             [DrawImage
                \<lparr>source = imagePath ''stroke.png'', width = w, height = h, pixels = px\<rparr>
                (tokenLogoX + 77 * 0.75 + (440 - (tokenLogoX + 77 * 0.75)) / 2 - 22 / 2)
                (850 + 77 * 0.75 / 2 - 35 / 2) 22 35,
              finalAmountOp initialInvestment finalAmount,
              DrawImage tokenLogo (440 + finalAmountWidth + 19) tokenLogoY logoWidth logoHeight]
         | Undecodable \<Rightarrow>
             [FillText ''>'' 352 835 ''#FFFFFF'' ''bold 77px Impact'' ''left'' ''top'',
              finalAmountOp initialInvestment finalAmount,
              DrawImage tokenLogo (448 + finalAmountWidth + 19) tokenLogoY logoWidth logoHeight]
         | Missing \<Rightarrow>
             [FillText ''>'' 352 835 ''#FFFFFF'' ''bold 77px Impact'' ''left'' ''top'',
              finalAmountOp initialInvestment finalAmount,
              DrawImage tokenLogo (440 + finalAmountWidth + 19) tokenLogoY logoWidth logoHeight])"

definition investmentOps ::
  "text_metrics \<Rightarrow> files \<Rightarrow> real \<Rightarrow> real \<Rightarrow> chain \<Rightarrow> draw_op list" where
  "investmentOps tm fs initialInvestment finalAmount chain =
     (case fs (imagePath (toLowerCase chain @ ''.png'')) of
        Picture w h px \<Rightarrow>
          (let tokenLogo =
                 \<lparr>source = imagePath (toLowerCase chain @ ''.png''), width = w, height = h,
                  pixels = px\<rparr>
           in [FillText (toFixed initialInvestment 1) 130 835
                 ''#FFFFFF'' ''bold 77px Impact'' ''left'' ''top'',
               DrawImage tokenLogo
                 (130 + tm ''bold 77px Impact'' (toFixed initialInvestment 1) + 19)
                 (835 + 77 * 0.75 * 0.35)
                 (if chain = ETH then 39 else 77 * 0.75)
                 (if chain = ETH then 39 * (real h / real w) else 77 * 0.75)]
              @ separatorOps tm fs initialInvestment finalAmount chain tokenLogo)
      | _ \<Rightarrow>
          [FillText identicalTo 272 835 ''#FFFFFF'' ''bold 77px Impact'' ''left'' ''top'',
           FillText ''>'' 352 835 ''#FFFFFF'' ''bold 77px Impact'' ''left'' ''top'',
           finalAmountOp initialInvestment finalAmount,
           FillText identicalTo 544 835
             (if isProfitable initialInvestment finalAmount then ''#00FF00'' else ''#FF0000'')
             ''bold 77px Impact'' ''left'' ''top''])"

definition usdOps :: "real \<Rightarrow> real \<Rightarrow> real \<Rightarrow> draw_op list" where
  "usdOps initialInvestment finalAmount tokenPrice =
     [FillText (''$'' @ toLocaleString (initialUsd initialInvestment tokenPrice)) 130 927
        ''#818181'' ''bold 26px GeistMono'' ''left'' ''top'',
      FillText (''$'' @ toLocaleString (finalUsd finalAmount tokenPrice)) 440 927
        ''#818181'' ''bold 26px GeistMono'' ''left'' ''top'']"

subsection \<open>Reading a drawing\<close>

text \<open>The strings drawn at an anchor, and their fill colours, in drawing order.\<close>

fun textsAt :: "real \<Rightarrow> real \<Rightarrow> draw_op list \<Rightarrow> string list" where
  "textsAt x y [] = []"
| "textsAt x y (FillText s x' y' c f a b # ops) =
     (if x' = x \<and> y' = y then s # textsAt x y ops else textsAt x y ops)"
| "textsAt x y (_ # ops) = textsAt x y ops"

fun coloursAt :: "real \<Rightarrow> real \<Rightarrow> draw_op list \<Rightarrow> string list" where
  "coloursAt x y [] = []"
| "coloursAt x y (FillText s x' y' c f a b # ops) =
     (if x' = x \<and> y' = y then c # coloursAt x y ops else coloursAt x y ops)"
| "coloursAt x y (_ # ops) = coloursAt x y ops"

text \<open>
  Where the image loaded from a path is drawn: position, width and height of each
  \<^verbatim>\<open>drawImage\<close> call, in drawing order.
\<close>

fun boxesOf :: "string \<Rightarrow> draw_op list \<Rightarrow> (real \<times> real \<times> real \<times> real) list" where
  "boxesOf p [] = []"
| "boxesOf p (DrawImage img x y w h # ops) =
     (if source img = p then (x, y, w, h) # boxesOf p ops else boxesOf p ops)"
| "boxesOf p (_ # ops) = boxesOf p ops"

definition sizesOf :: "string \<Rightarrow> draw_op list \<Rightarrow> (real \<times> real) list" where
  "sizesOf p ops = map (\<lambda>(x, y, w, h). (w, h)) (boxesOf p ops)"

subsection \<open>The input contract and the formats, as the specification words them\<close>


text \<open>
  The logo sizing policy of the specification (section 4.5, step 6): for ETH a fixed
  width of 39 and the height that keeps the bitmap's aspect ratio, for SOL a square of the
  text's line height, three quarters of the font size.
\<close>

definition logoSizePolicy :: "chain \<Rightarrow> real \<Rightarrow> nat \<Rightarrow> nat \<Rightarrow> real \<times> real" where
  "logoSizePolicy chain fontSize w h =
     (case chain of
        ETH \<Rightarrow> (39, 39 * (real h / real w))
      | SOL \<Rightarrow> (fontSize * 0.75, fontSize * 0.75))"

fun isPicture :: "asset \<Rightarrow> bool" where
  "isPicture (Picture w h px) = True"
| "isPicture Undecodable = False"
| "isPicture Missing = False"

definition isDigit :: "char \<Rightarrow> bool" where
  "isDigit c = (c \<in> set ''0123456789'')"




subsection \<open>A sample installation\<close>

text \<open>
  An image directory with all four files and a font engine in which every character is
  ten pixels wide, for the concrete runs below.
\<close>

definition sampleFiles :: files where
  "sampleFiles p =
     (if p = ''src/images/bg.png'' then Picture 1600 1071 [0]
      else if p = ''src/images/sol.png'' then Picture 64 64 [1]
      else if p = ''src/images/eth.png'' then Picture 40 65 [2]
      else if p = ''src/images/stroke.png'' then Picture 22 35 [3]
      else Missing)"

definition sampleMetrics :: text_metrics where
  "sampleMetrics f str = 10 * real (length str)"


section \<open>The script computes its normal form\<close>

text \<open>
  One lemma per block: the context after the block is the context before it with the
  block's properties set and its operations appended.
\<close>

lemmas canvas_ops = drawImage_def fillRect_def strokeRect_def fillText_def measureText_def

lemma drawBackground_effect:
  "drawBackground fs 1600 1071 c =
     (case fs (imagePath ''bg.png'') of
        Picture w h px \<Rightarrow> c\<lparr>drawn := drawn c @ backgroundOps fs\<rparr>
      | _ \<Rightarrow> c\<lparr>fillStyle := ''#000000'', drawn := drawn c @ backgroundOps fs\<rparr>)"
  unfolding drawBackground_def Let_def
  by (simp add: canvas_ops existsSync_def loadImage_def backgroundOps_def split: asset.splits)

lemma drawMugshotBox_effect:
  "drawMugshotBox c =
     c\<lparr>fillStyle := ''#FFFFFF'', strokeStyle := ''#FFFFFF'', lineWidth := 5,
       font := ''bold 70px Impact'', textAlign := ''center'',
       drawn := drawn c @
         [StrokeRect 1192 848 321 125 ''#FFFFFF'' 5,
          FillRect 1194 850 317 121 ''#000000'',
          FillText ''MUGSHOT'' 1352 937 ''#FFFFFF'' ''bold 70px Impact'' ''center''
            (textBaseline c)]\<rparr>"
  unfolding drawMugshotBox_def Let_def by (simp add: canvas_ops)

lemma drawTicker_effect:
  "drawTicker ticker c =
     c\<lparr>fillStyle := ''#FFFFFF'', font := ''bold 132px AntonSC'', textAlign := ''left'',
       textBaseline := ''top'',
       drawn := drawn c @
         [FillText (''$'' @ ticker) 112 63 ''#FFFFFF'' ''bold 132px AntonSC'' ''left'' ''top'']\<rparr>"
  unfolding drawTicker_def Let_def by (simp add: canvas_ops)

lemma drawHeader_effect:
  "drawHeader c =
     c\<lparr>fillStyle := ''#FFFFFF'', font := ''36px GeistMono'', textAlign := ''left'',
       textBaseline := ''top'',
       drawn := drawn c @
         [FillText ''PROFIT/LOSS'' 125 299 ''#FFFFFF'' ''36px GeistMono'' ''left'' ''top'']\<rparr>"
  unfolding drawHeader_def Let_def by (simp add: canvas_ops)

lemma drawProfitUsd_effect:
  "drawProfitUsd ini fin price c =
     c\<lparr>fillStyle := (if isProfitable ini fin then ''#00FF00'' else ''#FF0000''),
       font := ''bold 152px Impact'', textAlign := ''left'', textBaseline := ''top'',
       drawn := drawn c @
         [FillText
            ((if isProfitable ini fin then ''+$'' else ''-$'')
               @ toLocaleString \<bar>profitUsd ini fin price\<bar>)
            61 346 (if isProfitable ini fin then ''#00FF00'' else ''#FF0000'')
            ''bold 152px Impact'' ''left'' ''top'']\<rparr>"
  unfolding drawProfitUsd_def Let_def by (simp add: canvas_ops)

lemma drawProfitQuantity_effect:
  "drawProfitQuantity tm fs ini fin chain c =
     c\<lparr>fillStyle := ''#FFFFFF'', font := ''bold 74px Impact'', textAlign := ''left'',
       textBaseline := ''middle'',
       drawn := drawn c @
         FillText (toFixed (profit ini fin) 3) 119 577 ''#FFFFFF'' ''bold 74px Impact''
           ''left'' ''middle''
         # quantityLogoOps tm fs ini fin chain\<rparr>"
  unfolding drawProfitQuantity_def Let_def
  by (simp add: canvas_ops existsSync_def loadImage_def quantityLogoOps_def split: asset.splits)

lemma drawInvestmentBox_effect:
  "drawInvestmentBox c =
     c\<lparr>fillStyle := ''#919191'', strokeStyle := ''#919191'', lineWidth := 5,
       drawn := drawn c @
         [StrokeRect 70 736 671 261 ''#818181'' 5,
          FillRect 73 738 665 257 ''#202020'',
          StrokeRect 70 998 671 12 ''#919191'' 5,
          FillRect 70 998 671 12 ''#919191'']\<rparr>"
  unfolding drawInvestmentBox_def Let_def by (simp add: canvas_ops)

lemma drawLabels_effect:
  "drawLabels tm ini fin c =
     c\<lparr>fillStyle := ''#FFFFFF'', font := ''bold 28px GeistMono'', textAlign := ''left'',
       textBaseline := ''top'',
       drawn := drawn c @
         [FillText ''INVESTED'' 130 780 ''#FFFFFF'' ''28px GeistMono'' ''left'' ''top'',
          FillText (''SOLD '' @ toFixed (roi ini fin) 2) 440 780
            ''#FFFFFF'' ''28px GeistMono'' ''left'' ''top'',
          FillText ''X ROI'' (440 + tm ''28px GeistMono'' (''SOLD '' @ toFixed (roi ini fin) 2))
            780 ''#FFFFFF'' ''bold 28px GeistMono'' ''left'' ''top'']\<rparr>"
  unfolding drawLabels_def Let_def by (simp add: canvas_ops)

lemma drawSeparatorImage_effect:
  "drawSeparatorImage tm strokeImage tokenLogo ini fin chain X Y H c =
     c\<lparr>fillStyle := (if isProfitable ini fin then ''#00FF00'' else ''#FF0000''),
       drawn := drawn c @
         [DrawImage strokeImage (X + H + (440 - (X + H)) / 2 - 22 / 2) (850 + H / 2 - 35 / 2) 22 35,
          FillText (toFixed fin 1) 440 835
            (if isProfitable ini fin then ''#00FF00'' else ''#FF0000'')
            (font c) (textAlign c) (textBaseline c),
          DrawImage tokenLogo (440 + tm (font c) (toFixed fin 1) + 19) Y
            (if chain = ETH then 39 else H)
            (if chain = ETH then 39 * (real (height tokenLogo) / real (width tokenLogo)) else H)]\<rparr>"
  unfolding drawSeparatorImage_def Let_def by (simp add: canvas_ops)

lemma drawSeparatorMissing_effect:
  "drawSeparatorMissing tm tokenLogo ini fin chain Y H c =
     c\<lparr>fillStyle := (if isProfitable ini fin then ''#00FF00'' else ''#FF0000''),
       drawn := drawn c @
         [FillText ''>'' 352 835 (fillStyle c) (font c) (textAlign c) (textBaseline c),
          FillText (toFixed fin 1) 440 835
            (if isProfitable ini fin then ''#00FF00'' else ''#FF0000'')
            (font c) (textAlign c) (textBaseline c),
          DrawImage tokenLogo (440 + tm (font c) (toFixed fin 1) + 19) Y
            (if chain = ETH then 39 else H)
            (if chain = ETH then 39 * (real (height tokenLogo) / real (width tokenLogo)) else H)]\<rparr>"
  unfolding drawSeparatorMissing_def Let_def by (simp add: canvas_ops)

lemma drawSeparatorError_effect:
  "drawSeparatorError tm tokenLogo ini fin chain Y H c =
     c\<lparr>fillStyle := (if isProfitable ini fin then ''#00FF00'' else ''#FF0000''),
       drawn := drawn c @
         [FillText ''>'' 352 835 (fillStyle c) (font c) (textAlign c) (textBaseline c),
          FillText (toFixed fin 1) 440 835
            (if isProfitable ini fin then ''#00FF00'' else ''#FF0000'')
            (font c) (textAlign c) (textBaseline c),
          DrawImage tokenLogo (448 + tm (font c) (toFixed fin 1) + 19) Y
            (if chain = ETH then 39 else H)
            (if chain = ETH then 39 * (real (height tokenLogo) / real (width tokenLogo)) else H)]\<rparr>"
  unfolding drawSeparatorError_def Let_def by (simp add: canvas_ops)

lemma drawLogoMissing_effect:
  "drawLogoMissing ini fin c =
     c\<lparr>fillStyle := (if isProfitable ini fin then ''#00FF00'' else ''#FF0000''),
       drawn := drawn c @
         [FillText identicalTo 272 835 (fillStyle c) (font c) (textAlign c) (textBaseline c),
          FillText ''>'' 352 835 (fillStyle c) (font c) (textAlign c) (textBaseline c),
          FillText (toFixed fin 1) 440 835
            (if isProfitable ini fin then ''#00FF00'' else ''#FF0000'')
            (font c) (textAlign c) (textBaseline c),
          FillText identicalTo 544 835
            (if isProfitable ini fin then ''#00FF00'' else ''#FF0000'')
            (font c) (textAlign c) (textBaseline c)]\<rparr>"
  unfolding drawLogoMissing_def Let_def by (simp add: canvas_ops)

lemma drawLogoError_effect: "drawLogoError ini fin c = drawLogoMissing ini fin c"
  by (simp add: drawLogoError_def drawLogoMissing_def)

lemma drawInvestment_effect:
  "fillStyle c = ''#FFFFFF'' \<Longrightarrow>
   drawInvestment tm fs ini fin chain c =
     c\<lparr>fillStyle := (if isProfitable ini fin then ''#00FF00'' else ''#FF0000''),
       font := ''bold 77px Impact'', textAlign := ''left'', textBaseline := ''top'',
       drawn := drawn c @ investmentOps tm fs ini fin chain\<rparr>"
  unfolding drawInvestment_def Let_def
  by (simp add: canvas_ops existsSync_def loadImage_def investmentOps_def separatorOps_def
      finalAmountOp_def drawSeparatorImage_effect drawSeparatorMissing_effect
      drawSeparatorError_effect drawLogoMissing_effect drawLogoError_effect Let_def
      split: asset.splits)

lemma drawUsdAmounts_effect:
  "drawUsdAmounts ini fin price c =
     c\<lparr>fillStyle := ''#818181'', font := ''bold 26px GeistMono'', textAlign := ''left'',
       textBaseline := ''top'', drawn := drawn c @ usdOps ini fin price\<rparr>"
  unfolding drawUsdAmounts_def Let_def by (simp add: canvas_ops usdOps_def)

lemma renderCanvas_normal_form:
  "renderCanvas tm fs ticker ini fin price chain =
     \<lparr>pixelWidth = 1600, pixelHeight = 1071,
      ctx2d = \<lparr>fillStyle = ''#818181'', strokeStyle = ''#919191'', lineWidth = 5,
               font = ''bold 26px GeistMono'', textAlign = ''left'', textBaseline = ''top'',
               drawn = backgroundOps fs @ headOps ticker ini fin price
                 @ quantityLogoOps tm fs ini fin chain @ boxOps tm ini fin
                 @ investmentOps tm fs ini fin chain @ usdOps ini fin price\<rparr>\<rparr>"
  unfolding renderCanvas_def Let_def
  by (simp add: createCanvas_def drawBackground_effect drawMugshotBox_effect drawTicker_effect
      drawHeader_effect drawProfitUsd_effect drawProfitQuantity_effect drawInvestmentBox_effect
      drawLabels_effect drawInvestment_effect drawUsdAmounts_effect headOps_def boxOps_def
      split: asset.splits)

lemmas normal_ops = backgroundOps_def headOps_def quantityLogoOps_def boxOps_def
  investmentOps_def separatorOps_def finalAmountOp_def usdOps_def

text \<open>Evaluation of the number formats on numerals.\<close>

lemmas eval_formats = toFixed_def toLocaleString_def numberToString_def stripTrailingZeros_def
  decimalDigits.simps groupThousands.simps threeDigits_def digitChar_def Let_def

section \<open>Reading the normal form\<close>

lemma textsAt_append: "textsAt x y (xs @ ys) = textsAt x y xs @ textsAt x y ys"
  by (induction x y xs rule: textsAt.induct) simp_all

lemma coloursAt_append: "coloursAt x y (xs @ ys) = coloursAt x y xs @ coloursAt x y ys"
  by (induction x y xs rule: coloursAt.induct) simp_all

lemma boxesOf_append: "boxesOf p (xs @ ys) = boxesOf p xs @ boxesOf p ys"
  by (induction p xs rule: boxesOf.induct) simp_all

lemma drawn_renderCanvas:
  "drawn (ctx2d (renderCanvas tm fs ticker ini fin price chain)) =
     backgroundOps fs @ headOps ticker ini fin price @ quantityLogoOps tm fs ini fin chain
       @ boxOps tm ini fin @ investmentOps tm fs ini fin chain @ usdOps ini fin price"
  by (simp add: renderCanvas_normal_form)

lemma textsAt_backgroundOps: "textsAt x y (backgroundOps fs) = []"
  by (simp add: backgroundOps_def split: asset.splits)

lemma textsAt_quantityLogoOps: "textsAt x y (quantityLogoOps tm fs ini fin chain) = []"
  by (simp add: quantityLogoOps_def split: asset.splits)

lemma coloursAt_backgroundOps: "coloursAt x y (backgroundOps fs) = []"
  by (simp add: backgroundOps_def split: asset.splits)

lemma coloursAt_quantityLogoOps: "coloursAt x y (quantityLogoOps tm fs ini fin chain) = []"
  by (simp add: quantityLogoOps_def split: asset.splits)

lemma coloursAt_investmentOps:
  "coloursAt 440 835 (investmentOps tm fs ini fin chain) =
     [if isProfitable ini fin then ''#00FF00'' else ''#FF0000'']"
  "coloursAt 61 346 (investmentOps tm fs ini fin chain) = []"
  by (simp_all add: investmentOps_def separatorOps_def finalAmountOp_def Let_def
      split: asset.splits)

lemma textsAt_investmentOps:
  "textsAt 440 835 (investmentOps tm fs ini fin chain) = [toFixed fin 1]"
  "textsAt 130 835 (investmentOps tm fs ini fin chain) =
     (case fs (imagePath (toLowerCase chain @ ''.png'')) of
        Picture w h px \<Rightarrow> [toFixed ini 1] | _ \<Rightarrow> [])"
  "textsAt 352 835 (investmentOps tm fs ini fin chain) =
     (case fs (imagePath (toLowerCase chain @ ''.png'')) of
        Picture w h px \<Rightarrow>
          (case fs (imagePath ''stroke.png'') of Picture w' h' px' \<Rightarrow> [] | _ \<Rightarrow> [''>''])
      | _ \<Rightarrow> [''>''])"
  "textsAt 272 835 (investmentOps tm fs ini fin chain) =
     (case fs (imagePath (toLowerCase chain @ ''.png'')) of
        Picture w h px \<Rightarrow> [] | _ \<Rightarrow> [identicalTo])"
  "textsAt 544 835 (investmentOps tm fs ini fin chain) =
     (case fs (imagePath (toLowerCase chain @ ''.png'')) of
        Picture w h px \<Rightarrow> [] | _ \<Rightarrow> [identicalTo])"
  "textsAt 61 346 (investmentOps tm fs ini fin chain) = []"
  "textsAt 119 577 (investmentOps tm fs ini fin chain) = []"
  "textsAt 440 780 (investmentOps tm fs ini fin chain) = []"
  "textsAt 130 927 (investmentOps tm fs ini fin chain) = []"
  "textsAt 440 927 (investmentOps tm fs ini fin chain) = []"
  by (simp_all add: investmentOps_def separatorOps_def finalAmountOp_def Let_def
      split: asset.splits)

lemma logoPath_cases:
  "imagePath (toLowerCase chain @ ''.png'') = (case chain of SOL \<Rightarrow> ''src/images/sol.png'' | ETH \<Rightarrow> ''src/images/eth.png'')"
  by (cases chain) (simp_all add: imagePath_def)

lemma paths_distinct:
  "imagePath ''bg.png'' \<noteq> imagePath (toLowerCase chain @ ''.png'')"
  "imagePath ''stroke.png'' \<noteq> imagePath (toLowerCase chain @ ''.png'')"
  "imagePath (toLowerCase chain @ ''.png'') \<noteq> imagePath ''bg.png''"
  "imagePath (toLowerCase chain @ ''.png'') \<noteq> imagePath ''stroke.png''"
  "imagePath ''bg.png'' \<noteq> imagePath ''stroke.png''"
  "imagePath ''stroke.png'' \<noteq> imagePath ''bg.png''"
  by (cases chain; simp add: imagePath_def)+

lemma boxesOf_backgroundOps:
  "p \<noteq> imagePath ''bg.png'' \<Longrightarrow> boxesOf p (backgroundOps fs) = []"
  by (simp add: backgroundOps_def split: asset.splits)

lemma boxesOf_fixed:
  "boxesOf p (headOps ticker ini fin price) = []"
  "boxesOf p (boxOps tm ini fin) = []"
  "boxesOf p (usdOps ini fin price) = []"
  by (simp_all add: headOps_def boxOps_def usdOps_def)

lemma boxesOf_logo_quantityLogoOps:
  "boxesOf (imagePath (toLowerCase chain @ ''.png'')) (quantityLogoOps tm fs ini fin chain) =
     (case fs (imagePath (toLowerCase chain @ ''.png'')) of
        Picture w h px \<Rightarrow>
          [(119 + tm ''bold 74px Impact'' (toFixed (profit ini fin) 3) + 20, 577 - 74 * 0.75 / 2,
            if chain = ETH then 39 else 74 * 0.75,
            if chain = ETH then 39 * (real h / real w) else 74 * 0.75)]
      | _ \<Rightarrow> [])"
  by (simp add: quantityLogoOps_def split: asset.splits)

lemma boxesOf_stroke_quantityLogoOps:
  "boxesOf (imagePath ''stroke.png'') (quantityLogoOps tm fs ini fin chain) = []"
  by (cases chain; simp add: quantityLogoOps_def imagePath_def split: asset.splits)

lemma boxesOf_logo_investmentOps:
  "boxesOf (imagePath (toLowerCase chain @ ''.png'')) (investmentOps tm fs ini fin chain) =
     (case fs (imagePath (toLowerCase chain @ ''.png'')) of
        Picture w h px \<Rightarrow>
          [(130 + tm ''bold 77px Impact'' (toFixed ini 1) + 19, 835 + 77 * 0.75 * 0.35,
            if chain = ETH then 39 else 77 * 0.75,
            if chain = ETH then 39 * (real h / real w) else 77 * 0.75),
           ((if fs (imagePath ''stroke.png'') = Undecodable then 448 else 440)
              + tm ''bold 77px Impact'' (toFixed fin 1) + 19,
            835 + 77 * 0.75 * 0.35,
            if chain = ETH then 39 else 77 * 0.75,
            if chain = ETH then 39 * (real h / real w) else 77 * 0.75)]
      | _ \<Rightarrow> [])"
  by (cases chain; simp add: investmentOps_def separatorOps_def finalAmountOp_def Let_def
      imagePath_def split: asset.splits)

lemma boxesOf_stroke_investmentOps:
  "boxesOf (imagePath ''stroke.png'') (investmentOps tm fs ini fin chain) =
     (if isPicture (fs (imagePath (toLowerCase chain @ ''.png'')))
         \<and> isPicture (fs (imagePath ''stroke.png''))
      then [(130 + tm ''bold 77px Impact'' (toFixed ini 1) + 19 + 77 * 0.75
              + (440 - (130 + tm ''bold 77px Impact'' (toFixed ini 1) + 19 + 77 * 0.75)) / 2
              - 22 / 2,
             850 + 77 * 0.75 / 2 - 35 / 2, 22, 35)]
      else [])"
  by (cases chain; simp add: investmentOps_def separatorOps_def finalAmountOp_def Let_def
      imagePath_def split: asset.splits)

lemmas sol_row =
  boxesOf_logo_quantityLogoOps [where chain = SOL, simplified]
  boxesOf_logo_investmentOps [where chain = SOL, simplified]
  boxesOf_stroke_quantityLogoOps [where chain = SOL, simplified]
  boxesOf_stroke_investmentOps [where chain = SOL, simplified]
  textsAt_investmentOps [where chain = SOL, simplified]

lemmas eth_row =
  boxesOf_logo_quantityLogoOps [where chain = ETH, simplified]
  boxesOf_logo_investmentOps [where chain = ETH, simplified]
  boxesOf_stroke_quantityLogoOps [where chain = ETH, simplified]
  boxesOf_stroke_investmentOps [where chain = ETH, simplified]
  textsAt_investmentOps [where chain = ETH, simplified]

lemmas read_drawing = drawn_renderCanvas boxesOf_append textsAt_append boxesOf_backgroundOps
  boxesOf_fixed textsAt_backgroundOps textsAt_quantityLogoOps

lemma images_distinct:
  "imagePath ''sol.png'' \<noteq> imagePath ''eth.png''" "imagePath ''eth.png'' \<noteq> imagePath ''sol.png''"
  "imagePath ''sol.png'' \<noteq> imagePath ''bg.png''" "imagePath ''bg.png'' \<noteq> imagePath ''sol.png''"
  "imagePath ''eth.png'' \<noteq> imagePath ''bg.png''" "imagePath ''bg.png'' \<noteq> imagePath ''eth.png''"
  "imagePath ''sol.png'' \<noteq> imagePath ''stroke.png''" "imagePath ''stroke.png'' \<noteq> imagePath ''sol.png''"
  "imagePath ''eth.png'' \<noteq> imagePath ''stroke.png''" "imagePath ''stroke.png'' \<noteq> imagePath ''eth.png''"
  "imagePath ''bg.png'' \<noteq> imagePath ''stroke.png''" "imagePath ''stroke.png'' \<noteq> imagePath ''bg.png''"
  by (simp_all add: imagePath_def)

lemma sampleFiles_at:
  "sampleFiles (imagePath ''bg.png'') = Picture 1600 1071 [0]"
  "sampleFiles (imagePath ''sol.png'') = Picture 64 64 [1]"
  "sampleFiles (imagePath ''eth.png'') = Picture 40 65 [2]"
  "sampleFiles (imagePath ''stroke.png'') = Picture 22 35 [3]"
  by (simp_all add: imagePath_def sampleFiles_def)

lemmas sample_defs = images_distinct sampleFiles_at sampleMetrics_def

lemma separatorOps_other_paths:
  "p \<noteq> imagePath ''stroke.png'' \<Longrightarrow>
   separatorOps tm (fs(p := a)) ini fin chain tokenLogo = separatorOps tm fs ini fin chain tokenLogo"
  by (simp add: separatorOps_def)

section \<open>The number formats\<close>


lemma not_digit [simp]:
  "\<not> isDigit (CHR ''.'')" "\<not> isDigit (CHR ''-'')" "\<not> isDigit (CHR '','')" "isDigit (CHR ''0'')"
  by (simp_all add: isDigit_def)














section \<open>The derived metrics\<close>



section \<open>Colour by profit\<close>

text \<open>
  C2. \<open>isProfitable\<close> is \<open>finalAmount - initialInvestment \<ge> 0\<close>, and both
  profit-dependent texts take their colour from it in every image directory, whatever the
  three assets hold: exactly one text is drawn at the anchor of the profit amount (61, 346)
  and exactly one at the anchor of the final amount (440, 835), each in \<^verbatim>\<open>#00FF00\<close> when
  the trade is profitable and in \<^verbatim>\<open>#FF0000\<close> when it is not.
\<close>

theorem profit_colour_everywhere:
  "isProfitable initialInvestment finalAmount = (finalAmount - initialInvestment \<ge> 0)
   \<and> coloursAt 61 346
        (drawn (ctx2d (renderCanvas tm fs ticker initialInvestment finalAmount tokenPrice chain)))
       = [if finalAmount - initialInvestment \<ge> 0 then ''#00FF00'' else ''#FF0000'']
   \<and> coloursAt 440 835
        (drawn (ctx2d (renderCanvas tm fs ticker initialInvestment finalAmount tokenPrice chain)))
       = [if finalAmount - initialInvestment \<ge> 0 then ''#00FF00'' else ''#FF0000'']"
  by (simp add: drawn_renderCanvas coloursAt_append coloursAt_backgroundOps
      coloursAt_quantityLogoOps coloursAt_investmentOps headOps_def boxOps_def usdOps_def
      isProfitable_def profit_def)

section \<open>The render always completes\<close>


section \<open>A missing chain logo\<close>



section \<open>Logo sizes\<close>

text \<open>
  C6. The logo is sized by chain, and in the same way in all three logo slots (the
  quantity row, the invested amount, the final amount): when the chain's logo loads, with
  a bitmap \<open>w\<close> pixels wide and \<open>h\<close> high, the card draws it exactly three times; for ETH
  each time 39 wide and \<open>39 * (h / w)\<close> high, for SOL each time as a square whose side is
  three quarters of the font size of the slot's text, 74 in the quantity row and 77 in the
  investment row.
\<close>

theorem logo_sizes_by_chain:
  assumes "fs (imagePath (toLowerCase chain @ ''.png'')) = Picture w h px" and "0 < w"
  shows "sizesOf (imagePath (toLowerCase chain @ ''.png''))
           (drawn (ctx2d (renderCanvas tm fs ticker initialInvestment finalAmount tokenPrice chain)))
         = [logoSizePolicy chain 74 w h, logoSizePolicy chain 77 w h, logoSizePolicy chain 77 w h]"
  using assms
  by (simp add: sizesOf_def drawn_renderCanvas boxesOf_append boxesOf_backgroundOps boxesOf_fixed
      paths_distinct boxesOf_logo_quantityLogoOps boxesOf_logo_investmentOps
      logoSizePolicy_def split: chain.splits)

text \<open>The second example scenario (ETH) and the first (SOL) on the sample installation.\<close>

theorem logo_sizes_by_chain_witness:
  "sampleFiles (imagePath (toLowerCase ETH @ ''.png'')) = Picture 40 65 [2] \<and> (0::nat) < 40
   \<and> sizesOf (imagePath ''eth.png'')
        (drawn (ctx2d (renderCanvas sampleMetrics sampleFiles ''TRUMP'' 1000 500 3500 ETH)))
       = [(39, 39 * (65 / 40)), (39, 39 * (65 / 40)), (39, 39 * (65 / 40))]
   \<and> sampleFiles (imagePath (toLowerCase SOL @ ''.png'')) = Picture 64 64 [1] \<and> (0::nat) < 64
   \<and> sizesOf (imagePath ''sol.png'')
        (drawn (ctx2d (renderCanvas sampleMetrics sampleFiles ''BONK'' 1000 2500 150 SOL)))
       = [(74 * 0.75, 74 * 0.75), (77 * 0.75, 77 * 0.75), (77 * 0.75, 77 * 0.75)]"
proof -
  have e: "sampleFiles (imagePath (toLowerCase ETH @ ''.png'')) = Picture 40 65 [2]"
    by (simp add: sampleFiles_def imagePath_def)
  have s: "sampleFiles (imagePath (toLowerCase SOL @ ''.png'')) = Picture 64 64 [1]"
    by (simp add: sampleFiles_def imagePath_def)
  show ?thesis
    using e s
      logo_sizes_by_chain [where fs = sampleFiles and chain = ETH and tm = sampleMetrics
        and ticker = "''TRUMP''" and initialInvestment = 1000 and finalAmount = 500
        and tokenPrice = 3500, OF e]
      logo_sizes_by_chain [where fs = sampleFiles and chain = SOL and tm = sampleMetrics
        and ticker = "''BONK''" and initialInvestment = 1000 and finalAmount = 2500
        and tokenPrice = 150, OF s]
    by (simp add: logoSizePolicy_def)
qed

section \<open>Determinism\<close>



section \<open>Independence of the fallbacks\<close>

text \<open>
  C5, as the code has it. Every combination of missing or undecodable assets renders.
  The background block, the first operation of the
  drawing, does not change with the chain logo or the separator, and nothing after it
  changes with the background. The separator is not independent of the chain logo: its
  bitmap is drawn exactly when both the chain logo and the separator load, and in every
  other case, also when the separator file is present and loads but the logo does not, the
  glyph \<^verbatim>\<open>>\<close> is drawn at (352, 835) in its place.
\<close>

theorem separator_needs_the_logo:
  "take 1 (drawn (ctx2d (renderCanvas tm (fs(imagePath (toLowerCase chain @ ''.png'') := a,
                                             imagePath ''stroke.png'' := b))
                          ticker initialInvestment finalAmount tokenPrice chain)))
     = take 1 (drawn (ctx2d (renderCanvas tm fs ticker initialInvestment finalAmount tokenPrice chain)))
   \<and> drop 1 (drawn (ctx2d (renderCanvas tm (fs(imagePath ''bg.png'' := a))
                          ticker initialInvestment finalAmount tokenPrice chain)))
     = drop 1 (drawn (ctx2d (renderCanvas tm fs ticker initialInvestment finalAmount tokenPrice chain)))
   \<and> (boxesOf (imagePath ''stroke.png'')
         (drawn (ctx2d (renderCanvas tm fs ticker initialInvestment finalAmount tokenPrice chain)))
        \<noteq> [])
     = (isPicture (fs (imagePath (toLowerCase chain @ ''.png'')))
        \<and> isPicture (fs (imagePath ''stroke.png'')))
   \<and> textsAt 352 835
        (drawn (ctx2d (renderCanvas tm fs ticker initialInvestment finalAmount tokenPrice chain)))
     = (if isPicture (fs (imagePath (toLowerCase chain @ ''.png'')))
           \<and> isPicture (fs (imagePath ''stroke.png''))
        then [] else [''>''])"
proof -
  have len: "length (backgroundOps g) = 1" for g
    by (simp add: backgroundOps_def split: asset.splits)
  have bg1: "backgroundOps (fs(imagePath (toLowerCase chain @ ''.png'') := a,
                               imagePath ''stroke.png'' := b)) = backgroundOps fs"
    by (simp add: backgroundOps_def paths_distinct)
  have q: "quantityLogoOps tm (fs(imagePath ''bg.png'' := a)) initialInvestment finalAmount chain
      = quantityLogoOps tm fs initialInvestment finalAmount chain"
    unfolding quantityLogoOps_def by (simp add: paths_distinct)
  have r: "investmentOps tm (fs(imagePath ''bg.png'' := a)) initialInvestment finalAmount chain
      = investmentOps tm fs initialInvestment finalAmount chain"
    unfolding investmentOps_def separatorOps_other_paths [OF paths_distinct(5)]
    by (simp add: paths_distinct)
  have t: "textsAt 352 835 (investmentOps tm fs initialInvestment finalAmount chain)
      = (if isPicture (fs (imagePath (toLowerCase chain @ ''.png'')))
            \<and> isPicture (fs (imagePath ''stroke.png''))
         then [] else [''>''])"
    by (simp add: textsAt_investmentOps split: asset.splits)
  show ?thesis
    by (simp add: drawn_renderCanvas len bg1 q r t boxesOf_append boxesOf_backgroundOps
        boxesOf_fixed paths_distinct boxesOf_stroke_quantityLogoOps boxesOf_stroke_investmentOps
        textsAt_append textsAt_backgroundOps textsAt_quantityLogoOps
        headOps_def boxOps_def usdOps_def)
qed

text \<open>
  C5 as stated fails: the same separator file, once with the SOL logo and once without
  it. With the logo the separator bitmap is drawn and no glyph; without it the glyph is
  drawn and no bitmap.
\<close>

theorem separator_alone_counterexample:
  "(sampleFiles(imagePath ''sol.png'' := Missing)) (imagePath ''stroke.png'')
     = sampleFiles (imagePath ''stroke.png'')
   \<and> boxesOf (imagePath ''stroke.png'')
        (drawn (ctx2d (renderCanvas sampleMetrics sampleFiles ''BONK'' 1000 2500 150 SOL)))
     = [(2739 / 8, 6891 / 8, 22, 35)]
   \<and> textsAt 352 835
        (drawn (ctx2d (renderCanvas sampleMetrics sampleFiles ''BONK'' 1000 2500 150 SOL)))
     = []
   \<and> boxesOf (imagePath ''stroke.png'')
        (drawn (ctx2d (renderCanvas sampleMetrics (sampleFiles(imagePath ''sol.png'' := Missing))
                         ''BONK'' 1000 2500 150 SOL)))
     = []
   \<and> textsAt 352 835
        (drawn (ctx2d (renderCanvas sampleMetrics (sampleFiles(imagePath ''sol.png'' := Missing))
                         ''BONK'' 1000 2500 150 SOL)))
     = [''>'']"
  by (simp add: read_drawing sol_row headOps_def boxOps_def usdOps_def sample_defs eval_formats)

section \<open>A separator that fails to load\<close>

text \<open>
  C4. A separator file that exists but fails to load is not rendered like a missing one:
  the \<^verbatim>\<open>catch\<close> block (line 413) places the second logo at \<open>448 + width + 19\<close>, the branch
  for a missing file (line 386) at \<open>440 + width + 19\<close>. In the first example scenario the
  second logo is drawn at x = 527 after a load failure and at x = 519 when the file is
  missing, and the two buffers differ.
\<close>

theorem separator_error_moves_the_logo:
  "boxesOf (imagePath ''sol.png'')
     (drawn (ctx2d (renderCanvas sampleMetrics (sampleFiles(imagePath ''stroke.png'' := Undecodable))
                      ''BONK'' 1000 2500 150 SOL)))
     = [(219, 2197 / 4, 111 / 2, 111 / 2), (209, 68417 / 80, 231 / 4, 231 / 4),
        (527, 68417 / 80, 231 / 4, 231 / 4)]
   \<and> boxesOf (imagePath ''sol.png'')
     (drawn (ctx2d (renderCanvas sampleMetrics (sampleFiles(imagePath ''stroke.png'' := Missing))
                      ''BONK'' 1000 2500 150 SOL)))
     = [(219, 2197 / 4, 111 / 2, 111 / 2), (209, 68417 / 80, 231 / 4, 231 / 4),
        (519, 68417 / 80, 231 / 4, 231 / 4)]
   \<and> generateTradingCard (\<lambda>cv. cv) sampleMetrics
        (sampleFiles(imagePath ''stroke.png'' := Undecodable)) ''BONK'' 1000 2500 150 SOL
     \<noteq> generateTradingCard (\<lambda>cv. cv) sampleMetrics
        (sampleFiles(imagePath ''stroke.png'' := Missing)) ''BONK'' 1000 2500 150 SOL"
proof -
  let ?err = "renderCanvas sampleMetrics (sampleFiles(imagePath ''stroke.png'' := Undecodable))
                ''BONK'' 1000 2500 150 SOL"
  let ?mis = "renderCanvas sampleMetrics (sampleFiles(imagePath ''stroke.png'' := Missing))
                ''BONK'' 1000 2500 150 SOL"
  have e: "boxesOf (imagePath ''sol.png'') (drawn (ctx2d ?err))
     = [(219, 2197 / 4, 111 / 2, 111 / 2), (209, 68417 / 80, 231 / 4, 231 / 4),
        (527, 68417 / 80, 231 / 4, 231 / 4)]"
    by (simp add: read_drawing sol_row sample_defs profit_def eval_formats)
  have m: "boxesOf (imagePath ''sol.png'') (drawn (ctx2d ?mis))
     = [(219, 2197 / 4, 111 / 2, 111 / 2), (209, 68417 / 80, 231 / 4, 231 / 4),
        (519, 68417 / 80, 231 / 4, 231 / 4)]"
    by (simp add: read_drawing sol_row sample_defs profit_def eval_formats)
  have "?err \<noteq> ?mis"
  proof
    assume "?err = ?mis"
    then have "boxesOf (imagePath ''sol.png'') (drawn (ctx2d ?err))
        = boxesOf (imagePath ''sol.png'') (drawn (ctx2d ?mis))"
      by simp
    then show False
      unfolding e m by simp
  qed
  then show ?thesis
    using e m by (simp add: generateTradingCard_def)
qed

section \<open>The place of the separator\<close>

text \<open>
  C7. For ETH the separator image is not centred between the right edge of the invested
  logo and x = 440: the gap is computed from \<open>tokenLogoX + textHeight\<close> (line 344), the
  right edge of a SOL logo, while the ETH logo is 39 wide. In the second example scenario
  the invested logo spans 209 to 248, the middle of the gap is 344, and the centre of the
  separator is at 353.375.
\<close>

theorem separator_off_centre_for_eth:
  "boxesOf (imagePath ''eth.png'')
     (drawn (ctx2d (renderCanvas sampleMetrics sampleFiles ''TRUMP'' 1000 500 3500 ETH)))
     = [(219, 2197 / 4, 39, 507 / 8), (209, 68417 / 80, 39, 507 / 8),
        (509, 68417 / 80, 39, 507 / 8)]
   \<and> boxesOf (imagePath ''stroke.png'')
     (drawn (ctx2d (renderCanvas sampleMetrics sampleFiles ''TRUMP'' 1000 500 3500 ETH)))
     = [(2739 / 8, 6891 / 8, 22, 35)]
   \<and> (2739 / 8 + 22 / 2 :: real) \<noteq> ((209 + 39) + 440) / 2"
  by (simp add: read_drawing eth_row sample_defs profit_def eval_formats)

text \<open>For SOL the separator is centred in the gap between the logo's right edge and 440.\<close>

lemma separator_centred_for_sol:
  assumes "isPicture (fs (imagePath ''sol.png''))" and "isPicture (fs (imagePath ''stroke.png''))"
  shows "boxesOf (imagePath ''sol.png'')
           (drawn (ctx2d (renderCanvas tm fs ticker ini fin price SOL))) ! 1
         = (130 + tm ''bold 77px Impact'' (toFixed ini 1) + 19, 835 + 77 * 0.75 * 0.35,
            77 * 0.75, 77 * 0.75)
       \<and> boxesOf (imagePath ''stroke.png'')
           (drawn (ctx2d (renderCanvas tm fs ticker ini fin price SOL)))
         = [(((130 + tm ''bold 77px Impact'' (toFixed ini 1) + 19 + 77 * 0.75) + 440) / 2 - 22 / 2,
             850 + 77 * 0.75 / 2 - 35 / 2, 22, 35)]"
  using assms
  by (cases "fs (imagePath ''sol.png'')"; cases "fs (imagePath ''stroke.png'')";
      simp add: read_drawing sol_row images_distinct field_simps)

section \<open>The displayed strings\<close>




end
